theory Spec2Isabelle
  imports Main "HOL-Library.Word"
begin

unbundle bit_operations_syntax

section \<open>The webhooks router of \<open>backend/app/api/routes/webhooks.py\<close>\<close>

text \<open>
  The module registers five route handlers on an \<open>APIRouter\<close> with prefix
  \<open>/webhooks\<close>. Every handler receives a database session and the current user; three of
  them also receive a path parameter \<open>id\<close> of type \<open>uuid.UUID\<close>. A handler either returns
  a dictionary or raises \<open>HTTPException\<close>.

  The embedding passes the session explicitly: a handler takes the session and returns its
  outcome together with the session it leaves behind. A raised exception is the left
  summand of the outcome, a returned value the right one.
\<close>

subsection \<open>Values\<close>

text \<open>
  What a handler returns: Python dictionaries, lists and strings, as the framework
  serialises them to JSON. A dictionary keeps its insertion order, so it is an
  association list.
\<close>

datatype json =
    JString string
  | JArray "json list"
  | JObject "(string \<times> json) list"

text \<open>\<open>HTTPException(status_code=..., detail=...)\<close>.\<close>

datatype http_exception = HTTPException (status_code: nat) (detail: string)

text \<open>
  The current user. The handlers read one attribute, \<open>current_user.id\<close>; the class of the
  user and the type of its \<open>id\<close> are declared in \<open>app.models\<close>, so the type of the
  identifier is a parameter here; the attributes that no handler reads are left out.
\<close>

record 'i user =
  user_id :: 'i

subsection \<open>\<open>uuid.UUID\<close>, \<open>uuid.uuid4\<close> and \<open>str\<close> of a UUID\<close>

text \<open>A \<open>uuid.UUID\<close> object wraps a 128-bit integer.\<close>

datatype uuid = UUID (uuid_int: "128 word")

text \<open>
  \<open>uuid.uuid4()\<close> is \<open>UUID(bytes=os.urandom(16), version=4)\<close>. The sixteen bytes read from
  the operating system are the argument here, as the big-endian integer they denote. The
  constructor then fixes the variant and the version:
  \<^verbatim>\<open>
    int &= ~(0xc000 << 48)
    int |= 0x8000 << 48
    int &= ~(0xf000 << 64)
    int |= version << 76
  \<close>
\<close>

definition uuid4 :: "128 word \<Rightarrow> uuid" where
  "uuid4 urandom =
     (let i0 = urandom;
          i1 = i0 AND NOT (push_bit 48 0xc000);
          i2 = i1 OR push_bit 48 0x8000;
          i3 = i2 AND NOT (push_bit 64 0xf000);
          i4 = i3 OR push_bit 76 4
      in UUID i4)"

text \<open>
  \<open>str\<close> of a UUID: \<open>'%032x' % self.int\<close>, cut into groups of 8, 4, 4, 4 and 12 digits
  that are joined by hyphens.
\<close>

definition hexdigits :: string where
  "hexdigits = ''0123456789abcdef''"

definition hex_char :: "128 word \<Rightarrow> char" where
  "hex_char w = hexdigits ! unat (w AND 0xf)"

definition hex32 :: "128 word \<Rightarrow> string" where
  "hex32 w = map (\<lambda>k. hex_char (drop_bit (4 * k) w)) (rev [0..<32])"

definition str_uuid :: "uuid \<Rightarrow> string" where
  "str_uuid u =
     (let x = hex32 (uuid_int u)
      in take 8 x @ ''-'' @ take 4 (drop 8 x) @ ''-'' @ take 4 (drop 12 x) @ ''-''
         @ take 4 (drop 16 x) @ ''-'' @ drop 20 x)"

text \<open>
  The textual form of a UUID: 36 characters, a hyphen at each of the positions 8, 13, 18
  and 23, a hexadecimal digit everywhere else.
\<close>

definition is_hex :: "char \<Rightarrow> bool" where
  "is_hex c \<longleftrightarrow> c \<in> set hexdigits"

definition valid_uuid_char :: "string \<Rightarrow> nat \<Rightarrow> bool" where
  "valid_uuid_char s k =
     (if k \<in> {8, 13, 18, 23} then s ! k = CHR ''-'' else is_hex (s ! k))"

definition valid_uuid_string :: "string \<Rightarrow> bool" where
  "valid_uuid_string s \<longleftrightarrow> length s = 36 \<and> list_all (valid_uuid_char s) [0..<36]"

subsection \<open>The handlers\<close>

type_synonym ('a, 's) outcome = "(http_exception + 'a) \<times> 's"

definition read_webhooks :: "'s \<Rightarrow> 'i user \<Rightarrow> (json, 's) outcome" where
  "read_webhooks session current_user =
     (Inr (JObject [(''webhooks'', JArray [])]), session)"

definition read_webhook :: "'s \<Rightarrow> 'i user \<Rightarrow> uuid \<Rightarrow> (json, 's) outcome" where
  "read_webhook session current_user ident =
     (Inl (HTTPException 404 ''Webhook not found''), session)"

text \<open>
  \<open>create_webhook\<close> calls \<open>uuid.uuid4()\<close> and \<open>str(current_user.id)\<close>. The bytes that
  \<open>uuid4\<close> reads from the operating system and the \<open>str\<close> of the identifier type are
  its two extra arguments.
\<close>

definition create_webhook ::
    "('i \<Rightarrow> string) \<Rightarrow> 128 word \<Rightarrow> 's \<Rightarrow> 'i user \<Rightarrow> (json, 's) outcome" where
  "create_webhook str urandom session current_user =
     (Inr (JObject [(''id'', JString (str_uuid (uuid4 urandom))),
                    (''created_by'', JString (str (user_id current_user)))]),
      session)"

definition update_webhook :: "'s \<Rightarrow> 'i user \<Rightarrow> uuid \<Rightarrow> (json, 's) outcome" where
  "update_webhook session current_user ident =
     (Inl (HTTPException 404 ''Webhook not found''), session)"

text \<open>
  \<open>delete_webhook\<close> is annotated to return a \<open>Message\<close>, a class of \<open>app.models\<close>; the type
  is a parameter.
\<close>

definition delete_webhook :: "'s \<Rightarrow> 'i user \<Rightarrow> uuid \<Rightarrow> ('m, 's) outcome" where
  "delete_webhook session current_user ident =
     (Inl (HTTPException 404 ''Webhook not found''), session)"

subsection \<open>Responses\<close>

text \<open>
  What the framework sends for an outcome. None of the five decorators passes a
  \<open>status_code\<close>, so a returned value is sent with the default status 200; a raised
  \<open>HTTPException\<close> is sent with its own status and the body \<open>{"detail": detail}\<close>.
\<close>

record response =
  status :: nat
  body :: json

fun respond :: "http_exception + json \<Rightarrow> response" where
  "respond (Inr content) = \<lparr>status = 200, body = content\<rparr>"
| "respond (Inl e) = \<lparr>status = status_code e, body = JObject [(''detail'', JString (detail e))]\<rparr>"

subsection \<open>The router\<close>

datatype http_method = GET | POST | PUT | DELETE

datatype endpoint =
  Read_webhooks | Read_webhook | Create_webhook | Update_webhook | Delete_webhook

record route =
  route_method :: http_method
  route_path :: string
  route_endpoint :: endpoint

definition prefix_router :: string where
  "prefix_router = ''/webhooks''"

text \<open>The routes in the order of their decorators.\<close>

definition router :: "route list" where
  "router =
     [\<lparr>route_method = GET, route_path = ''/'', route_endpoint = Read_webhooks\<rparr>,
      \<lparr>route_method = GET, route_path = ''/{id}'', route_endpoint = Read_webhook\<rparr>,
      \<lparr>route_method = POST, route_path = ''/'', route_endpoint = Create_webhook\<rparr>,
      \<lparr>route_method = PUT, route_path = ''/{id}'', route_endpoint = Update_webhook\<rparr>,
      \<lparr>route_method = DELETE, route_path = ''/{id}'', route_endpoint = Delete_webhook\<rparr>]"

text \<open>
  The parameters each handler declares, in the order of its \<open>def\<close>:
  \<open>session: SessionDep\<close>, \<open>current_user: CurrentUser\<close> and, for three of them,
  \<open>id: uuid.UUID\<close>.
\<close>

datatype param = Session_param | Current_user_param | Id_param

fun parameters :: "endpoint \<Rightarrow> param list" where
  "parameters Read_webhooks = [Session_param, Current_user_param]"
| "parameters Read_webhook = [Session_param, Current_user_param, Id_param]"
| "parameters Create_webhook = [Session_param, Current_user_param]"
| "parameters Update_webhook = [Session_param, Current_user_param, Id_param]"
| "parameters Delete_webhook = [Session_param, Current_user_param, Id_param]"

text \<open>
  \<open>SessionDep\<close> and \<open>CurrentUser\<close> are declared in \<open>app.api.deps\<close>: what the hosting
  application supplies for them is an input here, \<open>None\<close> when it supplies nothing (no
  session, no authenticated user). The \<open>id\<close> comes from the path.
\<close>

record ('s, 'i) supplied =
  session_dep :: "'s option"
  current_user_dep :: "'i user option"
  path_id :: "uuid option"

datatype ('s, 'i) arg = Session_arg 's | Current_user_arg "'i user" | Id_arg uuid

fun resolve :: "('s, 'i) supplied \<Rightarrow> param \<Rightarrow> ('s, 'i) arg option" where
  "resolve env Session_param = map_option Session_arg (session_dep env)"
| "resolve env Current_user_param = map_option Current_user_arg (current_user_dep env)"
| "resolve env Id_param = map_option Id_arg (path_id env)"

text \<open>
  Calling a handler on a list of arguments. A \<open>Message\<close> that \<open>delete_webhook\<close> returned
  would be serialised by \<open>enc\<close>.
\<close>

fun apply_endpoint ::
    "('i \<Rightarrow> string) \<Rightarrow> ('m \<Rightarrow> json) \<Rightarrow> 128 word \<Rightarrow> endpoint \<Rightarrow> ('s, 'i) arg list
      \<Rightarrow> (json, 's) outcome option" where
  "apply_endpoint str enc urandom Read_webhooks [Session_arg s, Current_user_arg u] =
     Some (read_webhooks s u)"
| "apply_endpoint str enc urandom Read_webhook [Session_arg s, Current_user_arg u, Id_arg i] =
     Some (read_webhook s u i)"
| "apply_endpoint str enc urandom Create_webhook [Session_arg s, Current_user_arg u] =
     Some (create_webhook str urandom s u)"
| "apply_endpoint str enc urandom Update_webhook [Session_arg s, Current_user_arg u, Id_arg i] =
     Some (update_webhook s u i)"
| "apply_endpoint str enc urandom Delete_webhook [Session_arg s, Current_user_arg u, Id_arg i] =
     Some (map_prod (map_sum (\<lambda>e. e) enc) (\<lambda>s'. s') (delete_webhook s u i))"
| "apply_endpoint str enc urandom e args = None"

text \<open>
  The framework resolves every declared parameter and calls the handler with the values;
  it does not call the handler when one of them is not resolved.
\<close>

definition invoke ::
    "('i \<Rightarrow> string) \<Rightarrow> ('m \<Rightarrow> json) \<Rightarrow> 128 word \<Rightarrow> ('s, 'i) supplied \<Rightarrow> endpoint
      \<Rightarrow> (json, 's) outcome option" where
  "invoke str enc urandom env e =
     (case those (map (resolve env) (parameters e)) of
        None \<Rightarrow> None
      | Some args \<Rightarrow> apply_endpoint str enc urandom e args)"

subsection \<open>Sequences of calls\<close>

text \<open>
  One call: the endpoint, and what it gets apart from the session. A sequence of calls
  runs on one session, each call on the session the call before it left.
\<close>

record 'i call =
  call_endpoint :: endpoint
  call_user :: "'i user option"
  call_id :: "uuid option"
  call_urandom :: "128 word"

definition step :: "('i \<Rightarrow> string) \<Rightarrow> ('m \<Rightarrow> json) \<Rightarrow> 's \<Rightarrow> 'i call \<Rightarrow> 's" where
  "step str enc s c =
     (case invoke str enc (call_urandom c)
             \<lparr>session_dep = Some s, current_user_dep = call_user c, path_id = call_id c\<rparr>
             (call_endpoint c) of
        None \<Rightarrow> s
      | Some (r, s') \<Rightarrow> s')"

definition run :: "('i \<Rightarrow> string) \<Rightarrow> ('m \<Rightarrow> json) \<Rightarrow> 's \<Rightarrow> 'i call list \<Rightarrow> 's" where
  "run str enc s cs = foldl (step str enc) s cs"

subsection \<open>Reading a response body\<close>

text \<open>The value under a key of a dictionary, \<open>None\<close> when the key is absent.\<close>

fun field :: "string \<Rightarrow> json \<Rightarrow> json option" where
  "field k (JObject kvs) = map_of kvs k"
| "field k v = None"

section \<open>Properties\<close>

subsection \<open>The text of a UUID\<close>

lemma length_hex32: "length (hex32 w) = 32"
  by (simp add: hex32_def)

lemma low_nibble_less: "unat ((w::128 word) AND 0xf) < 16"
proof -
  have "w AND 0xf \<le> 0xf"
    by (rule word_and_le1)
  then show ?thesis
    by (simp add: word_le_nat_alt)
qed

lemma is_hex_hex_char: "is_hex (hex_char w)"
proof -
  have "length hexdigits = 16"
    by (simp add: hexdigits_def)
  with low_nibble_less [of w] have "unat (w AND 0xf) < length hexdigits"
    by simp
  then show ?thesis
    unfolding is_hex_def hex_char_def by (rule nth_mem)
qed

lemma is_hex_hex32: "c \<in> set (hex32 w) \<Longrightarrow> is_hex c"
  by (auto simp: hex32_def is_hex_hex_char)

lemma is_hex_hex32_nth: "k < 32 \<Longrightarrow> is_hex (hex32 w ! k)"
  by (rule is_hex_hex32 [of _ w]) (simp add: length_hex32)

text \<open>Any 32 hexadecimal digits, grouped and hyphenated as \<open>str\<close> does, are a valid text.\<close>

lemma valid_uuid_string_groups:
  assumes len: "length x = 32"
    and hex: "\<And>k. k < 32 \<Longrightarrow> is_hex (x ! k)"
  shows "valid_uuid_string
           (take 8 x @ ''-'' @ take 4 (drop 8 x) @ ''-'' @ take 4 (drop 12 x) @ ''-''
            @ take 4 (drop 16 x) @ ''-'' @ drop 20 x)"
  unfolding valid_uuid_string_def list_all_iff
proof (intro conjI ballI)
  show "length (take 8 x @ ''-'' @ take 4 (drop 8 x) @ ''-'' @ take 4 (drop 12 x) @ ''-''
            @ take 4 (drop 16 x) @ ''-'' @ drop 20 x) = 36"
    using len by simp
next
  fix k
  assume "k \<in> set [0..<36]"
  then have k: "k < 36"
    by simp
  show "valid_uuid_char
          (take 8 x @ ''-'' @ take 4 (drop 8 x) @ ''-'' @ take 4 (drop 12 x) @ ''-''
            @ take 4 (drop 16 x) @ ''-'' @ drop 20 x) k"
    using k len hex unfolding valid_uuid_char_def
    by (auto simp: nth_append)
qed

lemma valid_str_uuid: "valid_uuid_string (str_uuid u)"
  unfolding str_uuid_def Let_def
  by (rule valid_uuid_string_groups) (simp_all add: length_hex32 is_hex_hex32_nth)

subsection \<open>Calls through the router\<close>

text \<open>When a handler is called, and with what.\<close>

lemma invoke_Some_iff:
  "invoke str enc r env e = Some out \<longleftrightarrow>
     (\<exists>s u. session_dep env = Some s \<and> current_user_dep env = Some u \<and>
        (case e of
           Read_webhooks \<Rightarrow> out = read_webhooks s u
         | Read_webhook \<Rightarrow> (\<exists>i. path_id env = Some i \<and> out = read_webhook s u i)
         | Create_webhook \<Rightarrow> out = create_webhook str r s u
         | Update_webhook \<Rightarrow> (\<exists>i. path_id env = Some i \<and> out = update_webhook s u i)
         | Delete_webhook \<Rightarrow> (\<exists>i. path_id env = Some i \<and>
              out = map_prod (map_sum (\<lambda>e. e) enc) (\<lambda>s'. s') (delete_webhook s u i))))"
  by (cases e; cases "session_dep env"; cases "current_user_dep env"; cases "path_id env")
     (auto simp: invoke_def)

lemmas handler_defs =
  read_webhooks_def read_webhook_def create_webhook_def update_webhook_def delete_webhook_def

lemma invoke_session:
  assumes "invoke str enc r env e = Some (res, s')"
  shows "session_dep env = Some s'"
  using assms unfolding invoke_Some_iff
  by (cases e) (auto simp: handler_defs)

lemma invoke_failure:
  assumes "invoke str enc r env e = Some (Inl x, s')"
  shows "x = HTTPException 404 ''Webhook not found''"
    and "e \<in> {Read_webhook, Update_webhook, Delete_webhook}"
  using assms unfolding invoke_Some_iff
  by (cases e; auto simp: handler_defs)+

lemma invoke_failing_endpoint:
  assumes "e \<in> {Read_webhook, Update_webhook, Delete_webhook}"
    and "invoke str enc r env e = Some (res, s')"
  shows "res = Inl (HTTPException 404 ''Webhook not found'')"
  using assms unfolding invoke_Some_iff
  by (cases e) (auto simp: handler_defs)

lemma step_session: "step str enc s c = s"
proof (cases "invoke str enc (call_urandom c)
    \<lparr>session_dep = Some s, current_user_dep = call_user c, path_id = call_id c\<rparr>
    (call_endpoint c)")
  case None
  then show ?thesis
    by (simp add: step_def)
next
  case (Some out)
  obtain res s' where out: "out = (res, s')"
    by (cases out)
  from Some out invoke_session [of str enc _ _ _ res s'] have "s' = s"
    by fastforce
  with Some out show ?thesis
    by (simp add: step_def)
qed

lemma run_session: "run str enc s cs = s"
  unfolding run_def by (induction cs) (simp_all add: step_session)

lemma parameters_both:
  "Session_param \<in> set (parameters e) \<and> Current_user_param \<in> set (parameters e)"
  by (cases e) simp_all

lemma invoke_defined:
  "session_dep env \<noteq> None \<and> current_user_dep env \<noteq> None \<and> path_id env \<noteq> None \<longrightarrow>
     invoke str enc urandom env e \<noteq> None"
  by (cases e; cases "session_dep env"; cases "current_user_dep env"; cases "path_id env")
     (simp_all add: invoke_def)

lemma invoke_needs_deps:
  "invoke str enc urandom env e \<noteq> None \<longrightarrow>
     session_dep env \<noteq> None \<and> current_user_dep env \<noteq> None"
  by (cases e; cases "session_dep env"; cases "current_user_dep env"; cases "path_id env")
     (simp_all add: invoke_def)

text \<open>One run of \<open>uuid4\<close> and \<open>str\<close>, evaluated.\<close>

lemma str_uuid4_example:
  "str_uuid (uuid4 0x0123456789abcdef0123456789abcdef) = ''01234567-89ab-4def-8123-456789abcdef''"
  by code_simp

section \<open>The claims\<close>

text \<open>
  Claim C1. For every caller and every session, \<open>read_webhooks\<close> (\<open>GET /webhooks/\<close>) is
  answered with status 200 and the body \<open>{"webhooks": []}\<close>. The result is the same for
  any other session and caller, also of other types, and the same after any sequence of
  calls on the session; called through the router with a session and a user supplied, it
  returns that body and the session it was given.
\<close>

theorem read_webhooks_empty_list:
  "respond (fst (read_webhooks session current_user)) =
     \<lparr>status = 200, body = JObject [(''webhooks'', JArray [])]\<rparr>
   \<and> fst (read_webhooks session' current_user') = fst (read_webhooks session current_user)
   \<and> fst (read_webhooks (run str enc session cs) current_user) =
       fst (read_webhooks session current_user)
   \<and> invoke str enc urandom
        \<lparr>session_dep = Some session, current_user_dep = Some current_user, path_id = p\<rparr>
        Read_webhooks = Some (Inr (JObject [(''webhooks'', JArray [])]), session)"
  by (simp add: read_webhooks_def invoke_def)

text \<open>
  Claim C2. For every caller, \<open>create_webhook\<close> (\<open>POST /webhooks/\<close>) returns, whatever bytes
  the operating system hands to \<open>uuid4\<close>: it is answered with status 200, the \<open>id\<close> of the
  body is a string in the textual form of a UUID, \<open>created_by\<close> is \<open>str\<close> of the caller's
  \<open>id\<close>, and the session is the one it was given: nothing is stored.
\<close>

theorem create_webhook_uuid_and_caller:
  "\<exists>content ident.
     create_webhook str urandom session current_user = (Inr content, session)
     \<and> status (respond (Inr content)) = 200
     \<and> field ''id'' content = Some (JString ident)
     \<and> valid_uuid_string ident
     \<and> field ''created_by'' content = Some (JString (str (user_id current_user)))"
  by (simp add: create_webhook_def valid_str_uuid)

text \<open>
  The claim at one input: the caller \<open>alice\<close> and the sixteen bytes
  \<open>01 23 45 67 89 ab cd ef 01 23 45 67 89 ab cd ef\<close>.
\<close>

theorem create_webhook_uuid_and_caller_witness:
  "create_webhook (\<lambda>i. i) 0x0123456789abcdef0123456789abcdef (0::nat) \<lparr>user_id = ''alice''\<rparr> =
     (Inr (JObject [(''id'', JString ''01234567-89ab-4def-8123-456789abcdef''),
                    (''created_by'', JString ''alice'')]), 0)
   \<and> valid_uuid_string ''01234567-89ab-4def-8123-456789abcdef''"
  using create_webhook_uuid_and_caller
          [of "\<lambda>i. i" "0x0123456789abcdef0123456789abcdef" "0::nat" "\<lparr>user_id = ''alice''\<rparr>"]
  unfolding create_webhook_def str_uuid4_example
  by auto

text \<open>
  Claim C3. For every UUID and every caller, \<open>read_webhook\<close> (\<open>GET /webhooks/{id}\<close>) raises
  \<open>HTTPException\<close> with status 404 and detail \<open>Webhook not found\<close>, answered as status 404
  with the body \<open>{"detail": "Webhook not found"}\<close>; it returns no webhook.
\<close>

theorem read_webhook_not_found:
  "fst (read_webhook session current_user ident) = Inl (HTTPException 404 ''Webhook not found'')
   \<and> respond (fst (read_webhook session current_user ident)) =
       \<lparr>status = 404, body = JObject [(''detail'', JString ''Webhook not found'')]\<rparr>
   \<and> (\<forall>webhook. fst (read_webhook session current_user ident) \<noteq> Inr webhook)
   \<and> invoke str enc urandom
        \<lparr>session_dep = Some session, current_user_dep = Some current_user,
         path_id = Some ident\<rparr>
        Read_webhook = Some (Inl (HTTPException 404 ''Webhook not found''), session)"
  by (simp add: read_webhook_def invoke_def)

text \<open>
  Claim C4. For every UUID and every caller, \<open>update_webhook\<close> (\<open>PUT /webhooks/{id}\<close>) and
  \<open>delete_webhook\<close> (\<open>DELETE /webhooks/{id}\<close>) both raise \<open>HTTPException\<close> with status 404
  and detail \<open>Webhook not found\<close>.
\<close>

theorem update_delete_not_found:
  "fst (update_webhook session current_user ident) =
     Inl (HTTPException 404 ''Webhook not found'')
   \<and> respond (fst (update_webhook session current_user ident)) =
       \<lparr>status = 404, body = JObject [(''detail'', JString ''Webhook not found'')]\<rparr>
   \<and> fst (delete_webhook session current_user ident) =
       Inl (HTTPException 404 ''Webhook not found'')
   \<and> respond (map_sum (\<lambda>e. e) enc (fst (delete_webhook session current_user ident))) =
       \<lparr>status = 404, body = JObject [(''detail'', JString ''Webhook not found'')]\<rparr>"
  by (simp add: update_webhook_def delete_webhook_def)

text \<open>
  Claim C5. Whenever a call of one of the five endpoints fails, the error is the
  \<open>HTTPException\<close> with status 404 and detail \<open>Webhook not found\<close>, and the failure does
  not depend on the input or the session: every call of that endpoint, on any arguments,
  fails with the same error.
\<close>

theorem single_error_kind:
  fixes str :: "'i \<Rightarrow> string" and enc :: "'m \<Rightarrow> json" and env :: "('s, 'i) supplied"
  assumes "invoke str enc urandom env e = Some (Inl x, s)"
  shows "x = HTTPException 404 ''Webhook not found''
    \<and> (\<forall>(str' :: 'i \<Rightarrow> string) (enc' :: 'm \<Rightarrow> json) urandom' (env' :: ('s, 'i) supplied)
          res s'.
           invoke str' enc' urandom' env' e = Some (res, s') \<longrightarrow> res = Inl x)"
proof (intro conjI allI impI)
  show x: "x = HTTPException 404 ''Webhook not found''"
    using assms by (rule invoke_failure(1))
  fix str' :: "'i \<Rightarrow> string" and enc' :: "'m \<Rightarrow> json" and urandom'
    and env' :: "('s, 'i) supplied" and res s'
  assume call: "invoke str' enc' urandom' env' e = Some (res, s')"
  have e: "e \<in> {Read_webhook, Update_webhook, Delete_webhook}"
    using assms by (rule invoke_failure(2))
  from e call have "res = Inl (HTTPException 404 ''Webhook not found'')"
    by (rule invoke_failing_endpoint)
  with x show "res = Inl x"
    by simp
qed

text \<open>
  The claim at two calls of \<open>read_webhook\<close> that differ in the session, the caller, the
  \<open>id\<close> and the bytes of the operating system.
\<close>

theorem single_error_kind_witness:
  "\<exists>x s. invoke (\<lambda>i. i) (\<lambda>m::unit. JArray []) 0
            \<lparr>session_dep = Some (0::nat), current_user_dep = Some \<lparr>user_id = ''alice''\<rparr>,
             path_id = Some (UUID 3)\<rparr> Read_webhook = Some (Inl x, s)
     \<and> x = HTTPException 404 ''Webhook not found''
     \<and> invoke (\<lambda>i. i) (\<lambda>m::unit. JArray []) 7
            \<lparr>session_dep = Some (1::nat), current_user_dep = Some \<lparr>user_id = ''bob''\<rparr>,
             path_id = Some (UUID 4)\<rparr> Read_webhook = Some (Inl x, 1)"
proof -
  have h: "invoke (\<lambda>i. i) (\<lambda>m::unit. JArray []) 0
            \<lparr>session_dep = Some (0::nat), current_user_dep = Some \<lparr>user_id = ''alice''\<rparr>,
             path_id = Some (UUID 3)\<rparr> Read_webhook
           = Some (Inl (HTTPException 404 ''Webhook not found''), 0)"
    by (simp add: invoke_def read_webhook_def)
  have h': "invoke (\<lambda>i. i) (\<lambda>m::unit. JArray []) 7
            \<lparr>session_dep = Some (1::nat), current_user_dep = Some \<lparr>user_id = ''bob''\<rparr>,
             path_id = Some (UUID 4)\<rparr> Read_webhook
           = Some (Inl (HTTPException 404 ''Webhook not found''), 1)"
    by (simp add: invoke_def read_webhook_def)
  from single_error_kind [OF h] h h' show ?thesis
    by simp
qed

text \<open>
  Claim C6. No handler changes the session: each of the five leaves the session it was
  given, so does one call through the router, the same call repeated \<open>n\<close> times, and any
  sequence of calls.
\<close>

theorem handlers_leave_session:
  "snd (read_webhooks session current_user) = session
   \<and> snd (read_webhook session current_user ident) = session
   \<and> snd (create_webhook str urandom session current_user) = session
   \<and> snd (update_webhook session current_user ident) = session
   \<and> snd (delete_webhook session current_user ident) = session
   \<and> step str enc session c = session
   \<and> run str enc session (replicate n c) = session
   \<and> run str enc session cs = session"
  by (simp add: handler_defs step_session run_session)

text \<open>
  Claim C7. Every route of the router declares both the session and the current user as
  parameters, and its handler is called only when both have been supplied from outside;
  with both supplied (and the \<open>id\<close> of the path), it is called.
\<close>

theorem routes_need_session_and_user:
  assumes "r \<in> set router"
  shows "Session_param \<in> set (parameters (route_endpoint r))
    \<and> Current_user_param \<in> set (parameters (route_endpoint r))
    \<and> (invoke str enc urandom env (route_endpoint r) \<noteq> None \<longrightarrow>
           session_dep env \<noteq> None \<and> current_user_dep env \<noteq> None)
    \<and> (session_dep env \<noteq> None \<and> current_user_dep env \<noteq> None \<and> path_id env \<noteq> None \<longrightarrow>
           invoke str enc urandom env (route_endpoint r) \<noteq> None)"
  using parameters_both [of "route_endpoint r"] invoke_needs_deps [of str enc urandom env "route_endpoint r"]
    invoke_defined [of env str enc urandom "route_endpoint r"]
  by blast

text \<open>
  The claim at the route \<open>POST /\<close>: called with a session and the caller \<open>alice\<close>, not
  called without a caller.
\<close>

theorem routes_need_session_and_user_witness:
  "\<lparr>route_method = POST, route_path = ''/'', route_endpoint = Create_webhook\<rparr> \<in> set router
   \<and> invoke (\<lambda>i. i) (\<lambda>m::unit. JArray []) 0
        \<lparr>session_dep = Some (0::nat), current_user_dep = Some \<lparr>user_id = ''alice''\<rparr>,
         path_id = Some (UUID 3)\<rparr> Create_webhook \<noteq> None
   \<and> invoke (\<lambda>i. i) (\<lambda>m::unit. JArray []) 0
        \<lparr>session_dep = Some (0::nat), current_user_dep = None,
         path_id = Some (UUID 3)\<rparr> Create_webhook = None
   \<and> Session_param \<in> set (parameters Create_webhook)
   \<and> Current_user_param \<in> set (parameters Create_webhook)"
proof -
  have h: "\<lparr>route_method = POST, route_path = ''/'', route_endpoint = Create_webhook\<rparr>
            \<in> set router"
    by (simp add: router_def)
  from routes_need_session_and_user
         [OF h, of "\<lambda>i. i" "\<lambda>m::unit. JArray []" 0
            "\<lparr>session_dep = Some (0::nat), current_user_dep = Some \<lparr>user_id = ''alice''\<rparr>,
              path_id = Some (UUID 3)\<rparr>"]
       routes_need_session_and_user
         [OF h, of "\<lambda>i. i" "\<lambda>m::unit. JArray []" 0
            "\<lparr>session_dep = Some (0::nat), current_user_dep = None,
              path_id = Some (UUID 3)\<rparr>"]
       h
  show ?thesis
    by (cases "invoke (\<lambda>i. i) (\<lambda>m::unit. JArray []) 0
        \<lparr>session_dep = Some (0::nat), current_user_dep = None,
         path_id = Some (UUID 3)\<rparr> Create_webhook") auto
qed

text \<open>
  Claim C8. \<open>create_webhook\<close> has no error branch: for every caller, session and bytes of
  the operating system it returns a value and raises nothing, whereas \<open>read_webhook\<close>,
  \<open>update_webhook\<close> and \<open>delete_webhook\<close> raise.
\<close>

theorem create_webhook_never_raises:
  "(\<exists>content. fst (create_webhook str urandom session current_user) = Inr content)
   \<and> (\<forall>x. fst (create_webhook str urandom session current_user) \<noteq> Inl x)
   \<and> isl (fst (read_webhook session current_user ident))
   \<and> isl (fst (update_webhook session current_user ident))
   \<and> isl (fst (delete_webhook session current_user ident))"
  by (simp add: handler_defs)

text \<open>
  Claim C9. The outcomes of \<open>read_webhook\<close>, \<open>update_webhook\<close> and \<open>delete_webhook\<close> do
  not depend on their arguments: two calls on any sessions, callers and UUIDs, also of
  different types, have the same outcome, the 404 error.
\<close>

theorem not_found_noninterference:
  "fst (read_webhook session1 user1 ident1) = fst (read_webhook session2 user2 ident2)
   \<and> fst (update_webhook session1 user1 ident1) = fst (update_webhook session2 user2 ident2)
   \<and> fst (delete_webhook session1 user1 ident1) = fst (delete_webhook session2 user2 ident2)
   \<and> fst (read_webhook session1 user1 ident1) = Inl (HTTPException 404 ''Webhook not found'')
   \<and> fst (update_webhook session1 user1 ident1) = Inl (HTTPException 404 ''Webhook not found'')
   \<and> fst (delete_webhook session1 user1 ident1) = Inl (HTTPException 404 ''Webhook not found'')"
  by (simp add: handler_defs)

text \<open>
  Claim C10. \<open>delete_webhook\<close> never returns a \<open>Message\<close>: for every input its outcome is
  an exception, whatever the type \<open>Message\<close> is.
\<close>

theorem delete_webhook_never_returns:
  "fst (delete_webhook session current_user ident) \<noteq> Inr message
   \<and> isl (fst (delete_webhook session current_user ident))"
  by (simp add: delete_webhook_def)

end
